theory Spec2Isabelle
  imports Main "HOL-Library.Sublist" "HOL-Library.AList"
begin

section \<open>Python strings\<close>

text \<open>
  Python \<open>str\<close> values are modelled as \<open>string\<close>.  The functions below are the
  library operations that \<open>brain_extraction.py\<close> calls on strings.
\<close>

definition py_endswith :: "string \<Rightarrow> string list \<Rightarrow> bool" where
  \<comment> \<open>\<open>s.endswith((a, b, ...))\<close> with a tuple of suffixes\<close>
  "py_endswith s sufs = list_ex (\<lambda>x. suffix x s) sufs"

function py_scan :: "string \<Rightarrow> string \<Rightarrow> string \<Rightarrow> string" where
  "py_scan old new s =
     (if s = [] then []
      else if old \<noteq> [] \<and> prefix old s then new @ py_scan old new (drop (length old) s)
      else hd s # py_scan old new (tl s))"
  by pat_completeness auto
termination
  by (relation "measure (\<lambda>(old, new, s). length s)") (auto simp: neq_Nil_conv)

declare py_scan.simps [simp del]

definition py_replace :: "string \<Rightarrow> string \<Rightarrow> string \<Rightarrow> string" where
  \<comment> \<open>\<open>s.replace(old, new)\<close>: every non-overlapping occurrence, scanning from the left\<close>
  "py_replace s old new =
     (if old = [] then new @ concat (map (\<lambda>c. c # new) s) else py_scan old new s)"

definition is_space :: "char \<Rightarrow> bool" where
  \<comment> \<open>the ASCII characters for which \<open>str.isspace\<close> holds\<close>
  "is_space c = (c \<in> set [CHR 0x20, CHR 0x09, CHR 0x0A, CHR 0x0B, CHR 0x0C, CHR 0x0D,
                           CHR 0x1C, CHR 0x1D, CHR 0x1E, CHR 0x1F])"

definition py_strip :: "string \<Rightarrow> string" where
  \<comment> \<open>\<open>s.strip()\<close>\<close>
  "py_strip s = rev (dropWhile is_space (rev (dropWhile is_space s)))"

fun split_acc :: "string \<Rightarrow> string \<Rightarrow> string list" where
  "split_acc cur [] = (if cur = [] then [] else [rev cur])"
| "split_acc cur (c # cs) =
     (if is_space c then (if cur = [] then split_acc [] cs else rev cur # split_acc [] cs)
      else split_acc (c # cur) cs)"

definition py_split :: "string \<Rightarrow> string list" where
  \<comment> \<open>\<open>s.split()\<close>: the maximal runs of non-whitespace characters\<close>
  "py_split s = split_acc [] s"

section \<open>Errors\<close>

text \<open>
  Every exception is a value carrying its message.  The first three are raised by the
  script itself; the others come from the library calls it makes (a subprocess that
  cannot be started or times out, a file that cannot be opened, an index out of range).
\<close>

datatype error =
    FileNotFoundError string
  | ValueError string
  | RuntimeError string
  | TimeoutExpired string
  | OSError string
  | IndexError string

fun err_str :: "error \<Rightarrow> string" where
  "err_str (FileNotFoundError m) = m"
| "err_str (ValueError m) = m"
| "err_str (RuntimeError m) = m"
| "err_str (TimeoutExpired m) = m"
| "err_str (OSError m) = m"
| "err_str (IndexError m) = m"

section \<open>Paths\<close>

text \<open>
  A \<open>pathlib\<close> POSIX path is its anchor (\<open>''''\<close> for a relative path, \<open>''/''\<close> or
  \<open>''//''\<close> otherwise) and its list of components.  Parsing a string drops empty
  components and \<open>''.''\<close>; the \<open>/\<close> operator parses its right operand and appends it,
  unless that operand is absolute, in which case it replaces the left one.
\<close>

datatype path = Path (anchor: string) (parts: "string list")

fun split_sl :: "string \<Rightarrow> string list" where
  "split_sl [] = [[]]"
| "split_sl (c # cs) =
     (if c = CHR ''/'' then [] # split_sl cs
      else (case split_sl cs of [] \<Rightarrow> [[c]] | x # xs \<Rightarrow> (c # x) # xs))"

definition keep_part :: "string \<Rightarrow> bool" where
  "keep_part x = (x \<noteq> [] \<and> x \<noteq> ''.'')"

definition parse_path :: "string \<Rightarrow> path" where
  "parse_path s =
     (let n = length (takeWhile (\<lambda>c. c = CHR ''/'') s);
          a = (if n = 0 then [] else if n = 2 then ''//'' else ''/'')
      in Path a (filter keep_part (split_sl (drop n s))))"

definition joinpath :: "path \<Rightarrow> string \<Rightarrow> path" where
  \<comment> \<open>\<open>p / s\<close>\<close>
  "joinpath p s =
     (let q = parse_path s
      in if anchor q \<noteq> [] then q else Path (anchor p) (parts p @ parts q))"

fun intercalate :: "string \<Rightarrow> string list \<Rightarrow> string" where
  "intercalate sep [] = []"
| "intercalate sep [x] = x"
| "intercalate sep (x # y # ys) = x @ sep @ intercalate sep (y # ys)"

definition path_str :: "path \<Rightarrow> string" where
  \<comment> \<open>\<open>str(p)\<close>\<close>
  "path_str p =
     (if anchor p = [] \<and> parts p = [] then ''.'' else anchor p @ intercalate ''/'' (parts p))"

section \<open>The environment of the script\<close>

datatype pyfloat = PyFloat (float_repr: string)
  \<comment> \<open>a Python float, carried by the text that \<open>str\<close> gives for it\<close>

datatype json = JStr string | JFloat pyfloat | JObj "(string \<times> json) list"

record datetime =
  year :: nat
  month :: nat
  day :: nat
  hour :: nat
  minute :: nat
  second :: nat
  microsecond :: nat

text \<open>
  The file system: the paths that exist, the error (if any) that probing a path raises,
  what reading a file gives, the error (if any) that opening a path for writing or
  creating a directory raises, and the JSON documents written so far.
\<close>

record fsys =
  present :: "string set"
  stat_err :: "string \<rightharpoonup> error"
  rd :: "string \<Rightarrow> error + string"
  wr_err :: "string \<rightharpoonup> error"
  mkdir_err :: "string \<rightharpoonup> error"
  docs :: "string \<rightharpoonup> json"

datatype level = INFO | ERROR

datatype event = Log level string | Mkdir string | Run "string list" | Write string

record world =
  fs :: fsys
  environ :: "string \<rightharpoonup> string"
  sys_version :: string
  now :: datetime
  trace :: "event list"

text \<open>
  A subprocess either completes with a return code, standard output and standard error,
  or \<open>subprocess.run\<close> raises (the program is not found, the timeout expires).  What an
  external program does is not fixed by the script: it is a parameter, a function of the
  command line, the environment passed and the file system, which it may change.
\<close>

datatype proc = Completed int string string | Raised error

type_synonym tool = "string list \<Rightarrow> (string \<rightharpoonup> string) \<Rightarrow> fsys \<Rightarrow> proc \<times> fsys"

definition logger :: "level \<Rightarrow> string \<Rightarrow> world \<Rightarrow> world" where
  "logger l m w = w\<lparr>trace := trace w @ [Log l m]\<rparr>"

definition exists :: "path \<Rightarrow> world \<Rightarrow> error + bool" where
  \<comment> \<open>\<open>p.exists()\<close>: an \<open>OSError\<close> of the probe other than "no such file" is raised
      (a name that is too long, a parent directory that cannot be searched)\<close>
  "exists p w =
     (case stat_err (fs w) (path_str p) of
        Some e \<Rightarrow> Inl e
      | None \<Rightarrow> Inr (path_str p \<in> present (fs w)))"

definition subprocess_run :: "tool \<Rightarrow> string list \<Rightarrow> (string \<rightharpoonup> string) \<Rightarrow> world \<Rightarrow> proc \<times> world" where
  "subprocess_run t cmd env w =
     (let (r, f) = t cmd env (fs w)
      in (r, w\<lparr>fs := f, trace := trace w @ [Run cmd]\<rparr>))"

section \<open>validate_input\<close>

definition validate_input :: "path \<Rightarrow> world \<Rightarrow> (error + bool) \<times> world" where
  "validate_input input_path w =
     (case exists input_path w of
        Inl e \<Rightarrow> (Inl e, w)
      | Inr found \<Rightarrow>
          if \<not> found then
            (Inl (FileNotFoundError (''Input file not found: '' @ path_str input_path)), w)
          else if \<not> py_endswith (path_str input_path) [''.nii'', ''.nii.gz''] then
            (Inl (ValueError (''Input must be a NIfTI file (.nii or .nii.gz), got: ''
                               @ path_str input_path)), w)
          else (Inr True, logger INFO (''Input file validated: '' @ path_str input_path) w))"

section \<open>run_bet\<close>

definition output_base :: "path \<Rightarrow> string" where
  \<comment> \<open>\<open>str(output_file).replace('.nii.gz', '').replace('.nii', '')\<close>\<close>
  "output_base output_file =
     py_replace (py_replace (path_str output_file) ''.nii.gz'' []) ''.nii'' []"

definition bet_cmd :: "path \<Rightarrow> path \<Rightarrow> pyfloat \<Rightarrow> string list" where
  "bet_cmd input_file output_file fractional_intensity =
     [''bet'', path_str input_file, output_base output_file,
      ''-f'', float_repr fractional_intensity, ''-R'']"

definition bet_env :: "world \<Rightarrow> (string \<rightharpoonup> string)" where
  \<comment> \<open>a copy of the environment with \<open>/usr/bin:\<close> put in front of \<open>PATH\<close>\<close>
  "bet_env w =
     (environ w)(''PATH'' \<mapsto>
        ''/usr/bin:'' @ (case environ w ''PATH'' of None \<Rightarrow> [] | Some p \<Rightarrow> p))"

definition run_bet :: "tool \<Rightarrow> path \<Rightarrow> path \<Rightarrow> pyfloat \<Rightarrow> world \<Rightarrow> (error + path) \<times> world" where
  "run_bet t input_file output_file fractional_intensity w =
     (let w1 = logger INFO (''Running FSL BET on: '' @ path_str input_file) w;
          w2 = logger INFO (''Fractional intensity threshold: ''
                              @ float_repr fractional_intensity) w1;
          base = output_base output_file;
          cmd = bet_cmd input_file output_file fractional_intensity;
          w3 = logger INFO (''Command: '' @ intercalate '' '' cmd) w2;
          (r, w4) = subprocess_run t cmd (bet_env w3) w3
      in case r of
           Raised e \<Rightarrow>
             (Inl e, logger ERROR (''Unexpected error during BET: '' @ err_str e) w4)
         | Completed rc out err \<Rightarrow>
             if rc \<noteq> 0 then
               (Inl (RuntimeError (''Brain extraction failed: '' @ err)),
                logger ERROR (''BET failed with error: '' @ err) w4)
             else
               (let w5 = logger INFO ''BET completed successfully'' w4;
                    gz = parse_path (base @ ''.nii.gz'')
                in case exists gz w5 of
                     Inl e \<Rightarrow>
                       (Inl e, logger ERROR (''Unexpected error during BET: '' @ err_str e) w5)
                   | Inr found_gz \<Rightarrow>
                       (let output_with_ext =
                              (if \<not> found_gz then parse_path (base @ ''.nii'') else gz)
                        in case exists output_with_ext w5 of
                             Inl e \<Rightarrow>
                               (Inl e,
                                logger ERROR (''Unexpected error during BET: '' @ err_str e) w5)
                           | Inr found \<Rightarrow>
                               if found then
                                 (Inr output_with_ext,
                                  logger INFO (''Output saved to: ''
                                                 @ path_str output_with_ext) w5)
                               else
                                 (let e = FileNotFoundError
                                            (''BET output file not found: '' @ base)
                                  in (Inl e,
                                      logger ERROR (''Unexpected error during BET: ''
                                                      @ err_str e) w5)))))"

section \<open>save_metadata\<close>

subsection \<open>Timestamps\<close>

definition digit_char :: "nat \<Rightarrow> char" where
  "digit_char d = char_of (48 + d)"

definition is_digit :: "char \<Rightarrow> bool" where
  "is_digit c = ((48::nat) \<le> of_char c \<and> of_char c \<le> (57::nat))"

definition digit_val :: "char \<Rightarrow> nat" where
  "digit_val c = of_char c - 48"

fun zfill :: "nat \<Rightarrow> nat \<Rightarrow> string" where
  \<comment> \<open>the \<open>w\<close> low decimal digits of \<open>n\<close>: \<open>'%0wd' % n\<close> for \<open>n < 10 ^ w\<close>\<close>
  "zfill 0 n = []"
| "zfill (Suc w) n = zfill w (n div 10) @ [digit_char (n mod 10)]"

definition isoformat :: "datetime \<Rightarrow> string" where
  \<comment> \<open>\<open>d.isoformat()\<close> of a datetime without time zone\<close>
  "isoformat d =
     zfill 4 (year d) @ ''-'' @ zfill 2 (month d) @ ''-'' @ zfill 2 (day d) @ ''T''
     @ zfill 2 (hour d) @ '':'' @ zfill 2 (minute d) @ '':'' @ zfill 2 (second d)
     @ (if microsecond d = 0 then [] else ''.'' @ zfill 6 (microsecond d))"

definition leap :: "nat \<Rightarrow> bool" where
  "leap y = (y mod 4 = 0 \<and> (y mod 100 \<noteq> 0 \<or> y mod 400 = 0))"

definition days_in_month :: "nat \<Rightarrow> nat \<Rightarrow> nat" where
  "days_in_month y m =
     (if m = 2 then (if leap y then 29 else 28)
      else if m = 4 \<or> m = 6 \<or> m = 9 \<or> m = 11 then 30 else 31)"

definition valid_datetime :: "datetime \<Rightarrow> bool" where
  \<comment> \<open>the ranges that every \<open>datetime\<close> object satisfies\<close>
  "valid_datetime d =
     (1 \<le> year d \<and> year d \<le> 9999 \<and> 1 \<le> month d \<and> month d \<le> 12
      \<and> 1 \<le> day d \<and> day d \<le> days_in_month (year d) (month d)
      \<and> hour d < 24 \<and> minute d < 60 \<and> second d < 60 \<and> microsecond d < 1000000)"

definition parse_num :: "string \<Rightarrow> nat option" where
  "parse_num s =
     (if s \<noteq> [] \<and> list_all is_digit s
      then Some (foldl (\<lambda>a c. 10 * a + digit_val c) 0 s) else None)"

definition fromisoformat :: "string \<Rightarrow> datetime option" where
  \<comment> \<open>\<open>datetime.fromisoformat\<close> on the form \<open>YYYY-MM-DDTHH:MM:SS[.ffffff]\<close>\<close>
  "fromisoformat s =
     (if (length s = 19 \<or> (length s = 26 \<and> s ! 19 = CHR ''.''))
         \<and> s ! 4 = CHR ''-'' \<and> s ! 7 = CHR ''-'' \<and> s ! 10 = CHR ''T''
         \<and> s ! 13 = CHR '':'' \<and> s ! 16 = CHR '':''
      then
        (case (parse_num (take 4 s), parse_num (take 2 (drop 5 s)),
               parse_num (take 2 (drop 8 s)), parse_num (take 2 (drop 11 s)),
               parse_num (take 2 (drop 14 s)), parse_num (take 2 (drop 17 s)),
               (if length s = 19 then Some 0 else parse_num (drop 20 s))) of
           (Some y, Some mo, Some d, Some h, Some mi, Some sec, Some us) \<Rightarrow>
             (let r = \<lparr>year = y, month = mo, day = d, hour = h, minute = mi,
                       second = sec, microsecond = us\<rparr>
              in if valid_datetime r then Some r else None)
         | _ \<Rightarrow> None)
      else None)"

subsection \<open>The metadata document\<close>

definition fsl_versions :: "tool \<Rightarrow> world \<Rightarrow> (string \<times> json) list \<times> world" where
  \<comment> \<open>the \<open>try\<close> ... \<open>except\<close> block that fills \<open>software_versions\<close> for FSL\<close>
  "fsl_versions t w =
     (let (r, w1) = subprocess_run t [''bet'', ''-V''] (environ w) w
      in case r of
           Completed rc out err \<Rightarrow>
             (if rc = 0 then [(''fsl_bet'', JStr (py_strip out))] else [], w1)
         | Raised e \<Rightarrow>
             (case environ w1 ''FSLDIR'' of
                None \<Rightarrow> ([], w1)
              | Some d \<Rightarrow>
                  (let version_file = joinpath (joinpath (parse_path d) ''etc'') ''fslversion''
                   in case exists version_file w1 of
                        Inl e' \<Rightarrow> ([(''fsl'', JStr ''unknown'')], w1)
                      | Inr found \<Rightarrow>
                          if found then
                            (case rd (fs w1) (path_str version_file) of
                               Inr txt \<Rightarrow> ([(''fsl'', JStr (py_strip txt))], w1)
                             | Inl e' \<Rightarrow> ([(''fsl'', JStr ''unknown'')], w1))
                          else ([], w1))))"

definition metadata_file :: "path \<Rightarrow> path" where
  "metadata_file output_dir = joinpath output_dir ''processing_metadata.json''"

definition write_json :: "path \<Rightarrow> json \<Rightarrow> world \<Rightarrow> (error + unit) \<times> world" where
  \<comment> \<open>\<open>with open(p, 'w') as f: json.dump(doc, f, indent=2)\<close>\<close>
  "write_json p doc w =
     (case wr_err (fs w) (path_str p) of
        Some e \<Rightarrow> (Inl e, w)
      | None \<Rightarrow>
          (Inr (),
           w\<lparr>fs := (fs w)\<lparr>present := insert (path_str p) (present (fs w)),
                           docs := (docs (fs w))(path_str p \<mapsto> doc)\<rparr>,
             trace := trace w @ [Write (path_str p)]\<rparr>))"

definition save_metadata ::
  "tool \<Rightarrow> path \<Rightarrow> path \<Rightarrow> path \<Rightarrow> json \<Rightarrow> world \<Rightarrow> (error + path) \<times> world" where
  "save_metadata t output_dir input_file output_file parameters w =
     (let metadata =
            [(''timestamp'', JStr (isoformat (now w))),
             (''script_version'', JStr ''1.0.0''),
             (''author'', JStr ''Tara Neddersen''),
             (''lab'', JStr ''Knowles Lab, Stanford University Department of Neurology''),
             (''input_file'', JStr (path_str input_file)),
             (''output_file'', JStr (path_str output_file)),
             (''parameters'', parameters)];
          (versions, w1) = fsl_versions t w
      in case py_split (sys_version w1) of
           [] \<Rightarrow> (Inl (IndexError ''list index out of range''), w1)
         | v # rest \<Rightarrow>
             (let software_versions = AList.update ''python'' (JStr v) versions;
                  doc = JObj (metadata @ [(''software_versions'', JObj software_versions)])
              in case write_json (metadata_file output_dir) doc w1 of
                   (Inl e, w2) \<Rightarrow> (Inl e, w2)
                 | (Inr u, w2) \<Rightarrow>
                     (Inr (metadata_file output_dir),
                      logger INFO (''Metadata saved to: ''
                                     @ path_str (metadata_file output_dir)) w2)))"

section \<open>process_subject\<close>

definition subject_input_file :: "path \<Rightarrow> string \<Rightarrow> path" where
  "subject_input_file bids_dir subject_id =
     joinpath (joinpath (joinpath bids_dir (''sub-'' @ subject_id)) ''anat'')
              (''sub-'' @ subject_id @ ''_T1w.nii.gz'')"

definition subject_output_dir :: "path \<Rightarrow> string \<Rightarrow> path" where
  "subject_output_dir output_dir subject_id = joinpath output_dir (''sub-'' @ subject_id)"

definition subject_output_file :: "path \<Rightarrow> string \<Rightarrow> path" where
  "subject_output_file output_dir subject_id =
     joinpath (subject_output_dir output_dir subject_id)
              (''sub-'' @ subject_id @ ''_T1w_brain.nii.gz'')"

definition mkdir :: "path \<Rightarrow> world \<Rightarrow> (error + unit) \<times> world" where
  \<comment> \<open>\<open>p.mkdir(parents=True, exist_ok=True)\<close>: the directory and its ancestors exist afterwards\<close>
  "mkdir p w =
     (case mkdir_err (fs w) (path_str p) of
        Some e \<Rightarrow> (Inl e, w)
      | None \<Rightarrow>
          (Inr (),
           w\<lparr>fs := (fs w)\<lparr>present :=
                      present (fs w)
                      \<union> set (map (\<lambda>ps. path_str (Path (anchor p) ps)) (prefixes (parts p)))\<rparr>,
             trace := trace w @ [Mkdir (path_str p)]\<rparr>))"

definition process_subject ::
  "tool \<Rightarrow> path \<Rightarrow> string \<Rightarrow> path \<Rightarrow> pyfloat \<Rightarrow> world \<Rightarrow> (error + path) \<times> world" where
  "process_subject t bids_dir subject_id output_dir fractional_intensity w =
     (let w1 = logger INFO (''Processing subject: sub-'' @ subject_id) w;
          input_file = subject_input_file bids_dir subject_id
      in case exists input_file w1 of
           Inl e \<Rightarrow> (Inl e, w1)
         | Inr found \<Rightarrow>
             if \<not> found then
               (Inl (FileNotFoundError (''Input file not found: '' @ path_str input_file)), w1)
             else
               (case mkdir (subject_output_dir output_dir subject_id) w1 of
                  (Inl e, w2) \<Rightarrow> (Inl e, w2)
                | (Inr u, w2) \<Rightarrow>
                    (let output_file = subject_output_file output_dir subject_id
                     in case validate_input input_file w2 of
                          (Inl e, w3) \<Rightarrow> (Inl e, w3)
                        | (Inr ok, w3) \<Rightarrow>
                            (case run_bet t input_file output_file fractional_intensity w3 of
                               (Inl e, w4) \<Rightarrow> (Inl e, w4)
                             | (Inr result_file, w4) \<Rightarrow>
                                 (let parameters =
                                        JObj [(''fractional_intensity'',
                                               JFloat fractional_intensity),
                                              (''subject_id'', JStr subject_id)]
                                  in case save_metadata t
                                            (subject_output_dir output_dir subject_id)
                                            input_file result_file parameters w4 of
                                       (Inl e, w5) \<Rightarrow> (Inl e, w5)
                                     | (Inr mf, w5) \<Rightarrow>
                                         (Inr result_file,
                                          logger INFO (''Successfully processed sub-''
                                                         @ subject_id) w5))))))"

section \<open>Concrete environments\<close>

text \<open>
  A file system with nothing in it, a clock reading and some external programs: one that
  is not installed, one that exits with status 1, one that writes \<open><base>.nii.gz\<close> and
  exits with status 0, one that exits with status 0 and writes nothing, and one that fails
  and removes what was there.
\<close>

definition fs0 :: fsys where
  "fs0 = \<lparr>present = {}, stat_err = Map.empty, rd = (\<lambda>p. Inl (OSError ''cannot read'')),
          wr_err = Map.empty, mkdir_err = Map.empty, docs = Map.empty\<rparr>"

definition dt0 :: datetime where
  "dt0 = \<lparr>year = 2024, month = 12, day = 5, hour = 14, minute = 30, second = 7,
          microsecond = 123456\<rparr>"

definition world0 :: world where
  "world0 = \<lparr>fs = fs0, environ = Map.empty, sys_version = ''3.11.4 (main, Jun  7 2023)'',
             now = dt0, trace = []\<rparr>"

definition world1 :: world where
  \<comment> \<open>the scan of subject 01 exists under \<open>/data\<close>\<close>
  "world1 = world0\<lparr>fs := fs0\<lparr>present := {''/data/sub-01/anat/sub-01_T1w.nii.gz'',
                                             ''/data/notes.txt''}\<rparr>\<rparr>"

definition world_locked :: world where
  \<comment> \<open>the directory \<open>/locked\<close> cannot be searched: probing a path below it raises\<close>
  "world_locked =
     world0\<lparr>fs := fs0\<lparr>stat_err :=
        [''/locked/sub-02_T1w.nii.gz'' \<mapsto> OSError ''[Errno 13] Permission denied'',
         ''/locked/sub-01_T1w_brain.nii.gz'' \<mapsto> OSError ''[Errno 13] Permission denied'']\<rparr>\<rparr>"

definition world_readonly :: world where
  \<comment> \<open>as \<open>world1\<close>, but the directory \<open>/out/sub-01\<close> cannot be created\<close>
  "world_readonly =
     world0\<lparr>fs := fs0\<lparr>present := {''/data/sub-01/anat/sub-01_T1w.nii.gz''},
                       mkdir_err := [''/out/sub-01'' \<mapsto>
                                       OSError ''[Errno 13] Permission denied'']\<rparr>\<rparr>"

definition tool_missing :: tool where
  "tool_missing cmd env f = (Raised (FileNotFoundError ''No such file or directory: bet''), f)"

definition tool_fail :: tool where
  "tool_fail cmd env f = (Completed 1 [] ''bet: cannot open image'', f)"

definition tool_ok :: tool where
  "tool_ok cmd env f =
     (case cmd of
        b # i # base # rest \<Rightarrow>
          (Completed 0 [] [], f\<lparr>present := insert (base @ ''.nii.gz'') (present f)\<rparr>)
      | _ \<Rightarrow> (Completed 0 ''6.0.5'' [], f))"

definition tool_silent :: tool where
  \<comment> \<open>exits with status 0 and writes nothing\<close>
  "tool_silent cmd env f = (Completed 0 [] [], f)"

definition tool_wipe :: tool where
  \<comment> \<open>fails, and leaves nothing behind\<close>
  "tool_wipe cmd env f = (Completed 1 [] ''bet: failed'', f\<lparr>present := {}\<rparr>)"

section \<open>Growth of the world\<close>

definition extends :: "world \<Rightarrow> world \<Rightarrow> bool" where
  \<comment> \<open>the later world keeps every trace record and every existing path of the earlier one\<close>
  "extends w w' = (prefix (trace w) (trace w') \<and> present (fs w) \<subseteq> present (fs w'))"

section \<open>File names\<close>

definition path_name :: "path \<Rightarrow> string" where
  \<comment> \<open>\<open>p.name\<close>: the last component, or the empty string\<close>
  "path_name p = (if parts p = [] then [] else last (parts p))"

section \<open>The world in which the tool is called\<close>

definition prepared :: "path \<Rightarrow> string \<Rightarrow> path \<Rightarrow> world \<Rightarrow> world" where
  \<comment> \<open>the world that \<open>process_subject\<close> hands to \<open>run_bet\<close>: after the first log record,
      the creation of the subject's directory and the validation record\<close>
  "prepared bids_dir subject_id output_dir w =
     logger INFO (''Input file validated: ''
                    @ path_str (subject_input_file bids_dir subject_id))
       (snd (mkdir (subject_output_dir output_dir subject_id)
               (logger INFO (''Processing subject: sub-'' @ subject_id) w)))"

section \<open>Auxiliary facts\<close>

subsection \<open>Logging and subprocesses\<close>

lemma logger_simps [simp]:
  "fs (logger l m w) = fs w" "environ (logger l m w) = environ w"
  "sys_version (logger l m w) = sys_version w" "now (logger l m w) = now w"
  "trace (logger l m w) = trace w @ [Log l m]"
  by (simp_all add: logger_def)

lemma exists_logger [simp]: "exists p (logger l m w) = exists p w"
  by (simp add: exists_def split: option.splits)

lemma bet_env_logger [simp]: "bet_env (logger l m w) = bet_env w"
  by (simp add: bet_env_def)

lemma subprocess_run_snd:
  "snd (subprocess_run t cmd env w) =
     w\<lparr>fs := snd (t cmd env (fs w)), trace := trace w @ [Run cmd]\<rparr>"
  by (simp add: subprocess_run_def split: prod.splits)

lemma fsl_versions_snd:
  "snd (fsl_versions t w) =
     w\<lparr>fs := snd (t [''bet'', ''-V''] (environ w) (fs w)),
       trace := trace w @ [Run [''bet'', ''-V'']]\<rparr>"
  using subprocess_run_snd [of t "[''bet'', ''-V'']" "environ w" w]
  by (auto simp: fsl_versions_def Let_def split: prod.splits proc.splits option.splits sum.splits)

subsection \<open>Timestamps\<close>

lemma length_zfill [simp]: "length (zfill w n) = w"
  by (induction w arbitrary: n) simp_all

lemma digit_char_props: "d < 10 \<Longrightarrow> is_digit (digit_char d) \<and> digit_val (digit_char d) = d"
  by (simp add: is_digit_def digit_char_def digit_val_def)

lemma zfill_digits: "list_all is_digit (zfill w n)"
  by (induction w arbitrary: n) (simp_all add: digit_char_props)

lemma foldl_zfill:
  "foldl (\<lambda>a c. 10 * a + digit_val c) a (zfill w n) = a * 10 ^ w + n mod 10 ^ w"
proof (induction w arbitrary: n)
  case 0
  show ?case by simp
next
  case (Suc w)
  have "n mod (10 * 10 ^ w) = 10 * (n div 10 mod 10 ^ w) + n mod 10"
    by (rule mod_mult2_eq)
  with Suc show ?case
    by (simp add: digit_char_props algebra_simps)
qed

lemma parse_num_zfill: "0 < w \<Longrightarrow> n < 10 ^ w \<Longrightarrow> parse_num (zfill w n) = Some n"
proof -
  assume w: "0 < w" and n: "n < 10 ^ w"
  from w have "zfill w n \<noteq> []" by (cases w) simp_all
  then show ?thesis using n
    by (simp add: parse_num_def zfill_digits foldl_zfill)
qed

lemma fromisoformat_isoformat:
  assumes "valid_datetime d"
  shows "fromisoformat (isoformat d) = Some d"
proof -
  define Y where "Y = zfill 4 (year d)"
  define Mo where "Mo = zfill 2 (month d)"
  define D where "D = zfill 2 (day d)"
  define H where "H = zfill 2 (hour d)"
  define Mi where "Mi = zfill 2 (minute d)"
  define S where "S = zfill 2 (second d)"
  define U where "U = zfill 6 (microsecond d)"
  have len: "length Y = 4" "length Mo = 2" "length D = 2" "length H = 2" "length Mi = 2"
    "length S = 2" "length U = 6"
    by (simp_all add: Y_def Mo_def D_def H_def Mi_def S_def U_def)
  from assms have pn: "parse_num Y = Some (year d)" "parse_num Mo = Some (month d)"
    "parse_num D = Some (day d)" "parse_num H = Some (hour d)" "parse_num Mi = Some (minute d)"
    "parse_num S = Some (second d)" "parse_num U = Some (microsecond d)"
    unfolding Y_def Mo_def D_def H_def Mi_def S_def U_def valid_datetime_def days_in_month_def
    by (simp_all add: parse_num_zfill split: if_splits)
  have rec: "\<lparr>year = year d, month = month d, day = day d, hour = hour d, minute = minute d,
              second = second d, microsecond = microsecond d\<rparr> = d"
    by simp
  show ?thesis
  proof (cases "microsecond d = 0")
    case True
    then have iso: "isoformat d = Y @ ''-'' @ Mo @ ''-'' @ D @ ''T'' @ H @ '':'' @ Mi @ '':'' @ S"
      by (simp add: isoformat_def Y_def Mo_def D_def H_def Mi_def S_def)
    from True have rec0: "\<lparr>year = year d, month = month d, day = day d, hour = hour d,
              minute = minute d, second = second d, microsecond = 0\<rparr> = d"
      by simp
    show ?thesis
      unfolding iso fromisoformat_def
      using len pn assms True by (simp add: nth_append rec0)
  next
    case False
    then have iso: "isoformat d = Y @ ''-'' @ Mo @ ''-'' @ D @ ''T'' @ H @ '':'' @ Mi @ '':'' @ S
                      @ ''.'' @ U"
      by (simp add: isoformat_def Y_def Mo_def D_def H_def Mi_def S_def U_def)
    show ?thesis
      unfolding iso fromisoformat_def
      using len pn assms by (simp add: nth_append rec)
  qed
qed

subsection \<open>Paths\<close>

lemma split_sl_not_Nil [simp]: "split_sl s \<noteq> []"
  by (induction s) (auto split: list.splits)

lemma split_sl_slash: "split_sl (a @ CHR ''/'' # b) = split_sl a @ split_sl b"
  by (induction a) (auto split: list.splits)

lemma split_sl_snoc:
  "CHR ''/'' \<notin> set b \<Longrightarrow> split_sl (a @ b) = butlast (split_sl a) @ [last (split_sl a) @ b]"
proof (induction a)
  case Nil
  then show ?case by (induction b) (auto split: list.splits)
next
  case (Cons c a)
  then show ?case by (auto split: list.splits)
qed

lemma parse_path_relative:
  "s = [] \<or> hd s \<noteq> CHR ''/'' \<Longrightarrow> parse_path s = Path [] (filter keep_part (split_sl s))"
  by (cases s) (auto simp: parse_path_def)

lemma joinpath_relative:
  "s = [] \<or> hd s \<noteq> CHR ''/'' \<Longrightarrow>
   joinpath p s = Path (anchor p) (parts p @ filter keep_part (split_sl s))"
  by (simp add: joinpath_def parse_path_relative)

lemma joinpath_assoc:
  assumes "a \<noteq> [] \<and> hd a \<noteq> CHR ''/''" and "b = [] \<or> hd b \<noteq> CHR ''/''"
  shows "joinpath (joinpath p a) b = joinpath p (a @ ''/'' @ b)"
proof -
  from assms(1) have "a @ ''/'' @ b = [] \<or> hd (a @ ''/'' @ b) \<noteq> CHR ''/''"
    by (cases a) auto
  then show ?thesis
    using assms by (simp add: joinpath_relative split_sl_slash)
qed

lemma intercalate_snoc:
  "intercalate sep (xs @ [y]) = (if xs = [] then y else intercalate sep xs @ sep @ y)"
  by (induction sep xs rule: intercalate.induct) auto

lemma path_str_snoc: "suffix y (path_str (Path a (xs @ [y])))"
  by (auto simp: path_str_def intercalate_snoc suffix_def)

lemma keep_part_long: "2 \<le> length x \<Longrightarrow> keep_part x"
  by (auto simp: keep_part_def)

lemma joinpath_tail:
  assumes "s = [] \<or> hd s \<noteq> CHR ''/''" and "CHR ''/'' \<notin> set b" and "2 \<le> length b"
  shows "\<exists>xs y. joinpath p (s @ b) = Path (anchor p) (xs @ [y @ b])"
proof -
  from assms have rel: "s @ b = [] \<or> hd (s @ b) \<noteq> CHR ''/''"
    by (cases s; cases b) auto
  have "keep_part (last (split_sl s) @ b)"
    using assms(3) by (intro keep_part_long) simp
  then have "joinpath p (s @ b) =
      Path (anchor p) ((parts p @ filter keep_part (butlast (split_sl s))) @ [last (split_sl s) @ b])"
    by (simp add: joinpath_relative [OF rel] split_sl_snoc [OF assms(2)])
  then show ?thesis by blast
qed

lemma subject_input_file_suffix: "suffix ''.nii.gz'' (path_str (subject_input_file bids_dir subject_id))"
proof -
  obtain xs y where
    "joinpath (joinpath (joinpath bids_dir (''sub-'' @ subject_id)) ''anat'')
       ((''sub-'' @ subject_id) @ ''_T1w.nii.gz'') =
     Path (anchor (joinpath (joinpath bids_dir (''sub-'' @ subject_id)) ''anat''))
       (xs @ [y @ ''_T1w.nii.gz''])"
    using joinpath_tail [of "''sub-'' @ subject_id" "''_T1w.nii.gz''"] by fastforce
  then have "suffix (y @ ''_T1w.nii.gz'') (path_str (subject_input_file bids_dir subject_id))"
    by (simp add: subject_input_file_def path_str_snoc)
  moreover have "suffix ''.nii.gz'' (y @ ''_T1w.nii.gz'')"
    by (simp add: suffix_def) 
  ultimately show ?thesis
    by (rule suffix_order.trans [rotated])
qed

subsection \<open>The world only grows\<close>

lemma extends_refl [simp]: "extends w w"
  by (simp add: extends_def)

lemma extends_trans: "extends a b \<Longrightarrow> extends b c \<Longrightarrow> extends a c"
  by (auto simp: extends_def)

lemma extends_logger [simp]: "extends w (logger l m w)"
  by (simp add: extends_def)

lemma extends_logger_after: "extends a b \<Longrightarrow> extends a (logger l m b)"
  by (rule extends_trans [OF _ extends_logger])

lemma extends_subprocess_run:
  assumes "\<forall>cmd env f. present f \<subseteq> present (snd (t cmd env f))"
  shows "extends w (snd (subprocess_run t cmd env w))"
  using assms by (simp add: subprocess_run_snd extends_def)

lemma extends_validate_input: "extends w (snd (validate_input p w))"
  by (simp add: validate_input_def split: sum.splits)

lemma run_bet_unfold:
  assumes "subprocess_run t (bet_cmd i out fi) (bet_env w)
             (logger INFO (''Command: '' @ intercalate '' '' (bet_cmd i out fi))
               (logger INFO (''Fractional intensity threshold: '' @ float_repr fi)
                 (logger INFO (''Running FSL BET on: '' @ path_str i) w))) = (r, w4)"
  shows "run_bet t i out fi w =
     (case r of
        Raised e \<Rightarrow> (Inl e, logger ERROR (''Unexpected error during BET: '' @ err_str e) w4)
      | Completed rc out' err \<Rightarrow>
          if rc \<noteq> 0 then
            (Inl (RuntimeError (''Brain extraction failed: '' @ err)),
             logger ERROR (''BET failed with error: '' @ err) w4)
          else
            (let w5 = logger INFO ''BET completed successfully'' w4;
                 gz = parse_path (output_base out @ ''.nii.gz'')
             in case exists gz w5 of
                  Inl e \<Rightarrow>
                    (Inl e, logger ERROR (''Unexpected error during BET: '' @ err_str e) w5)
                | Inr found_gz \<Rightarrow>
                    (let output_with_ext =
                           (if \<not> found_gz then parse_path (output_base out @ ''.nii'') else gz)
                     in case exists output_with_ext w5 of
                          Inl e \<Rightarrow>
                            (Inl e,
                             logger ERROR (''Unexpected error during BET: '' @ err_str e) w5)
                        | Inr found \<Rightarrow>
                            if found then
                              (Inr output_with_ext,
                               logger INFO (''Output saved to: '' @ path_str output_with_ext) w5)
                            else
                              (let e = FileNotFoundError
                                         (''BET output file not found: '' @ output_base out)
                               in (Inl e,
                                   logger ERROR (''Unexpected error during BET: ''
                                                   @ err_str e) w5)))))"
  using assms by (simp add: run_bet_def Let_def)

lemma run_bet_world:
  "fs (snd (run_bet t i out fi w)) = snd (t (bet_cmd i out fi) (bet_env w) (fs w))
   \<and> (\<exists>post. trace (snd (run_bet t i out fi w)) =
         trace w @ [Log INFO (''Running FSL BET on: '' @ path_str i),
                    Log INFO (''Fractional intensity threshold: '' @ float_repr fi),
                    Log INFO (''Command: '' @ intercalate '' '' (bet_cmd i out fi)),
                    Run (bet_cmd i out fi)] @ post)"
proof -
  let ?w3 = "logger INFO (''Command: '' @ intercalate '' '' (bet_cmd i out fi))
               (logger INFO (''Fractional intensity threshold: '' @ float_repr fi)
                 (logger INFO (''Running FSL BET on: '' @ path_str i) w))"
  obtain r w4 where sp: "subprocess_run t (bet_cmd i out fi) (bet_env w) ?w3 = (r, w4)"
    by (cases "subprocess_run t (bet_cmd i out fi) (bet_env w) ?w3")
  from subprocess_run_snd [of t "bet_cmd i out fi" "bet_env w" ?w3] sp
  have w4: "w4 = ?w3\<lparr>fs := snd (t (bet_cmd i out fi) (bet_env w) (fs w)),
                      trace := trace ?w3 @ [Run (bet_cmd i out fi)]\<rparr>"
    by simp
  have f4: "fs w4 = snd (t (bet_cmd i out fi) (bet_env w) (fs w))"
    by (simp add: w4)
  have t4: "trace w4 = trace w @ [Log INFO (''Running FSL BET on: '' @ path_str i),
                Log INFO (''Fractional intensity threshold: '' @ float_repr fi),
                Log INFO (''Command: '' @ intercalate '' '' (bet_cmd i out fi)),
                Run (bet_cmd i out fi)]"
    by (simp add: w4)
  note rb = run_bet_unfold [OF sp]
  have "fs (snd (run_bet t i out fi w)) = fs w4
      \<and> (\<exists>post. trace (snd (run_bet t i out fi w)) = trace w4 @ post)"
  proof (cases r)
    case (Raised e)
    then show ?thesis by (simp add: rb)
  next
    case (Completed rc out' err)
    then show ?thesis by (simp add: rb Let_def split: sum.splits)
  qed
  then show ?thesis unfolding f4 t4 by simp
qed

lemma extends_run_bet:
  assumes "\<forall>cmd env f. present f \<subseteq> present (snd (t cmd env f))"
  shows "extends w (snd (run_bet t i out fi w))"
proof -
  from run_bet_world [of t i out fi w] obtain post where
    f: "fs (snd (run_bet t i out fi w)) = snd (t (bet_cmd i out fi) (bet_env w) (fs w))" and
    tr: "trace (snd (run_bet t i out fi w)) =
       trace w @ [Log INFO (''Running FSL BET on: '' @ path_str i),
                Log INFO (''Fractional intensity threshold: '' @ float_repr fi),
                Log INFO (''Command: '' @ intercalate '' '' (bet_cmd i out fi)),
                Run (bet_cmd i out fi)] @ post"
    by blast
  have "prefix (trace w) (trace (snd (run_bet t i out fi w)))"
    unfolding tr by (rule prefixI) (rule refl)
  moreover have "present (fs w) \<subseteq> present (fs (snd (run_bet t i out fi w)))"
    unfolding f using assms by blast
  ultimately show ?thesis by (simp add: extends_def)
qed

lemma extends_fsl_versions:
  assumes "\<forall>cmd env f. present f \<subseteq> present (snd (t cmd env f))"
  shows "extends w (snd (fsl_versions t w))"
  using assms by (simp add: fsl_versions_snd extends_def)

lemma extends_write_json: "extends w (snd (write_json p doc w))"
  by (auto simp: write_json_def extends_def split: option.splits)

lemma extends_save_metadata:
  assumes "\<forall>cmd env f. present f \<subseteq> present (snd (t cmd env f))"
  shows "extends w (snd (save_metadata t d i out ps w))"
proof -
  obtain versions w1 where fv: "fsl_versions t w = (versions, w1)"
    by (cases "fsl_versions t w")
  have "extends w (snd (fsl_versions t w))"
    using assms by (rule extends_fsl_versions)
  with fv have a: "extends w w1" by simp
  show ?thesis
  proof (cases "py_split (sys_version w1)")
    case Nil
    then show ?thesis using fv a by (simp add: save_metadata_def)
  next
    case (Cons v rest)
    have b: "extends w w2" if "write_json p doc w1 = (r, w2)" for p doc r w2
      using extends_trans [OF a extends_write_json [of w1 p doc]] that by simp
    show ?thesis
      using fv Cons
      by (auto simp: save_metadata_def Let_def split: prod.splits sum.splits
               intro: extends_logger_after b)
  qed
qed

subsection \<open>The metadata document\<close>

lemma map_of_python: "map_of (AList.update ''python'' v al) ''python'' = Some v"
  by (simp add: update_conv')

lemma save_metadata_succeeds:
  assumes "py_split (sys_version w) = v # rest"
      and "wr_err (snd (t [''bet'', ''-V''] (environ w) (fs w))) (path_str (metadata_file d)) = None"
  shows "fst (save_metadata t d i out ps w) = Inr (metadata_file d)"
proof -
  obtain versions w1 where fv: "fsl_versions t w = (versions, w1)"
    by (cases "fsl_versions t w")
  then have w1: "w1 = w\<lparr>fs := snd (t [''bet'', ''-V''] (environ w) (fs w)),
                         trace := trace w @ [Run [''bet'', ''-V'']]\<rparr>"
    using fsl_versions_snd [of t w] by simp
  show ?thesis
    using assms fv by (simp add: save_metadata_def write_json_def w1)
qed

subsection \<open>The suffix of a path is the suffix of its file name\<close>

lemma suffix_after_slash:
  assumes "CHR ''/'' \<notin> set suf" and "pre = [] \<or> last pre = CHR ''/''"
  shows "suffix suf (pre @ l) \<longleftrightarrow> suffix suf l"
proof
  assume "suffix suf (pre @ l)"
  then have "suffix suf l \<or> (\<exists>xs. suffix xs pre \<and> suf = xs @ l)"
    by (auto simp: suffix_append)
  then show "suffix suf l"
  proof
    assume "suffix suf l"
    then show ?thesis .
  next
    assume "\<exists>xs. suffix xs pre \<and> suf = xs @ l"
    then obtain xs where xs: "suffix xs pre" "suf = xs @ l" by blast
    show ?thesis
    proof (cases "xs = []")
      case True
      with xs(2) show ?thesis by simp
    next
      case False
      with xs(1) have ne: "pre \<noteq> []" by auto
      from xs(1) False have "last xs = last pre" by (auto simp: suffix_def)
      with assms(2) ne have "last xs = CHR ''/''" by simp
      with False have "CHR ''/'' \<in> set xs" by (metis last_in_set)
      with xs(2) assms(1) show ?thesis by simp
    qed
  qed
next
  assume "suffix suf l"
  then show "suffix suf (pre @ l)" by (simp add: suffix_appendI)
qed

lemma endswith_name:
  assumes "anchor p \<in> {[], ''/'', ''//''}" and "CHR ''/'' \<notin> set suf" and "2 \<le> length suf"
  shows "suffix suf (path_str p) \<longleftrightarrow> suffix suf (path_name p)"
proof (cases "parts p" rule: rev_cases)
  case Nil
  from assms(3) have ne: "suf \<noteq> []" by auto
  have dot: "\<not> suffix suf ''.''"
    using assms(3) by (auto dest: suffix_length_le)
  have sl: "\<not> suffix suf x" if "x \<noteq> []" "last x = CHR ''/''" for x
  proof
    assume "suffix suf x"
    with ne have "last suf = last x" by (auto simp: suffix_def)
    with that(2) ne have "CHR ''/'' \<in> set suf" by (metis last_in_set)
    with assms(2) show False by simp
  qed
  have "\<not> suffix suf (path_str p)"
    using Nil assms(1) dot sl [of "''/''"] sl [of "''//''"] by (auto simp: path_str_def)
  moreover have "\<not> suffix suf (path_name p)"
    using Nil ne by (simp add: path_name_def)
  ultimately show ?thesis by simp
next
  case (snoc xs l)
  define pre where "pre = anchor p @ (if xs = [] then [] else intercalate ''/'' xs @ ''/'')"
  have "pre = [] \<or> last pre = CHR ''/''"
    using assms(1) by (auto simp: pre_def)
  moreover have "path_str p = pre @ l"
    using snoc by (simp add: path_str_def intercalate_snoc pre_def)
  moreover have "path_name p = l"
    using snoc by (simp add: path_name_def)
  ultimately show ?thesis
    using suffix_after_slash [OF assms(2), of pre l] by simp
qed

subsection \<open>The steps of process_subject\<close>

lemma process_subject_layout:
  "subject_input_file bids_dir subject_id =
     joinpath bids_dir (''sub-'' @ subject_id @ ''/anat/sub-'' @ subject_id @ ''_T1w.nii.gz'')
   \<and> subject_output_file output_dir subject_id =
     joinpath output_dir (''sub-'' @ subject_id @ ''/sub-'' @ subject_id @ ''_T1w_brain.nii.gz'')
   \<and> metadata_file (subject_output_dir output_dir subject_id) =
     joinpath output_dir (''sub-'' @ subject_id @ ''/processing_metadata.json'')"
proof -
  have 1: "joinpath (joinpath bids_dir (''sub-'' @ subject_id)) ''anat'' =
           joinpath bids_dir ((''sub-'' @ subject_id) @ ''/'' @ ''anat'')"
    by (rule joinpath_assoc) simp_all
  have 2: "joinpath (joinpath bids_dir ((''sub-'' @ subject_id) @ ''/'' @ ''anat''))
             (''sub-'' @ subject_id @ ''_T1w.nii.gz'') =
           joinpath bids_dir (((''sub-'' @ subject_id) @ ''/'' @ ''anat'') @ ''/''
             @ (''sub-'' @ subject_id @ ''_T1w.nii.gz''))"
    by (rule joinpath_assoc) simp_all
  have 3: "joinpath (joinpath output_dir (''sub-'' @ subject_id))
             (''sub-'' @ subject_id @ ''_T1w_brain.nii.gz'') =
           joinpath output_dir ((''sub-'' @ subject_id) @ ''/''
             @ (''sub-'' @ subject_id @ ''_T1w_brain.nii.gz''))"
    by (rule joinpath_assoc) simp_all
  have 4: "joinpath (joinpath output_dir (''sub-'' @ subject_id)) ''processing_metadata.json'' =
           joinpath output_dir ((''sub-'' @ subject_id) @ ''/'' @ ''processing_metadata.json'')"
    by (rule joinpath_assoc) simp_all
  show ?thesis
    using 1 2 3 4
    by (simp add: subject_input_file_def subject_output_file_def subject_output_dir_def
                  metadata_file_def)
qed

lemma write_json_trace: "prefix (trace w) (trace (snd (write_json p doc w)))"
  by (simp add: write_json_def split: option.splits)

lemma save_metadata_trace: "prefix (trace w) (trace (snd (save_metadata t d i out ps w)))"
proof -
  obtain versions w1 where fv: "fsl_versions t w = (versions, w1)"
    by (cases "fsl_versions t w")
  from fsl_versions_snd [of t w] fv have a: "prefix (trace w) (trace w1)"
    by simp
  show ?thesis
  proof (cases "py_split (sys_version w1)")
    case Nil
    then show ?thesis using fv a by (simp add: save_metadata_def)
  next
    case (Cons v rest)
    have b: "prefix (trace w) (trace w2)" if "write_json p doc w1 = (r, w2)" for p doc r w2
      using prefix_order.trans [OF a write_json_trace [of w1 p doc]] that by simp
    show ?thesis
      using fv Cons
      by (auto simp: save_metadata_def Let_def split: prod.splits sum.splits
               intro: prefix_order.trans [OF _ prefixI [OF refl]] b)
  qed
qed

lemma prepared_fs:
  assumes "mkdir_err (fs w) (path_str (subject_output_dir output_dir subject_id)) = None"
  shows "fs (prepared bids_dir subject_id output_dir w) =
           (fs w)\<lparr>present := present (fs w)
              \<union> set (map (\<lambda>ps. path_str (Path (anchor (subject_output_dir output_dir subject_id)) ps))
                       (prefixes (parts (subject_output_dir output_dir subject_id))))\<rparr>"
    and "trace (prepared bids_dir subject_id output_dir w) =
           trace w @ [Log INFO (''Processing subject: sub-'' @ subject_id),
                      Mkdir (path_str (subject_output_dir output_dir subject_id)),
                      Log INFO (''Input file validated: ''
                                  @ path_str (subject_input_file bids_dir subject_id))]"
  using assms by (simp_all add: prepared_def mkdir_def)

lemma prepared_keeps [simp]:
  "environ (prepared bids_dir subject_id output_dir w) = environ w"
  "sys_version (prepared bids_dir subject_id output_dir w) = sys_version w"
  "now (prepared bids_dir subject_id output_dir w) = now w"
  by (simp_all add: prepared_def mkdir_def split: option.splits)

lemma prepared_dir:
  assumes "mkdir_err (fs w) (path_str (subject_output_dir output_dir subject_id)) = None"
  shows "path_str (subject_output_dir output_dir subject_id)
           \<in> present (fs (prepared bids_dir subject_id output_dir w))"
proof -
  let ?dir = "subject_output_dir output_dir subject_id"
  have "path_str (Path (anchor ?dir) (parts ?dir)) \<in>
          set (map (\<lambda>ps. path_str (Path (anchor ?dir) ps)) (prefixes (parts ?dir)))"
    by (rule imageI [of "parts ?dir" "set (prefixes (parts ?dir))", folded set_map]) simp
  then show ?thesis
    by (simp add: prepared_fs(1) [OF assms])
qed

lemma process_subject_unfold:
  assumes ex: "exists (subject_input_file bids_dir subject_id) w = Inr True"
      and mk: "mkdir_err (fs w) (path_str (subject_output_dir output_dir subject_id)) = None"
  shows "process_subject t bids_dir subject_id output_dir fi w =
      (case run_bet t (subject_input_file bids_dir subject_id)
                (subject_output_file output_dir subject_id) fi
                (prepared bids_dir subject_id output_dir w) of
         (Inl e, w4) \<Rightarrow> (Inl e, w4)
       | (Inr result_file, w4) \<Rightarrow>
           (case save_metadata t (subject_output_dir output_dir subject_id)
                   (subject_input_file bids_dir subject_id) result_file
                   (JObj [(''fractional_intensity'', JFloat fi), (''subject_id'', JStr subject_id)])
                   w4 of
              (Inl e, w5) \<Rightarrow> (Inl e, w5)
            | (Inr mf, w5) \<Rightarrow>
                (Inr result_file, logger INFO (''Successfully processed sub-'' @ subject_id) w5)))"
proof -
  let ?inp = "subject_input_file bids_dir subject_id"
  let ?dir = "subject_output_dir output_dir subject_id"
  let ?w1 = "logger INFO (''Processing subject: sub-'' @ subject_id) w"
  define w2 where "w2 = snd (mkdir ?dir ?w1)"
  have mkd: "mkdir ?dir ?w1 = (Inr (), w2)"
    using mk by (simp add: mkdir_def w2_def)
  have ex2: "exists ?inp w2 = Inr True"
    using ex mk by (auto simp: exists_def w2_def mkdir_def split: option.splits)
  have val: "validate_input ?inp w2 = (Inr True, prepared bids_dir subject_id output_dir w)"
    using ex2 subject_input_file_suffix [of bids_dir subject_id]
    by (simp add: validate_input_def py_endswith_def prepared_def w2_def)
  obtain rb w4 where rbe: "run_bet t ?inp (subject_output_file output_dir subject_id) fi
                             (prepared bids_dir subject_id output_dir w) = (rb, w4)"
    by (cases "run_bet t ?inp (subject_output_file output_dir subject_id) fi
                 (prepared bids_dir subject_id output_dir w)")
  show ?thesis
    using ex mkd val rbe
    by (cases rb) (simp_all add: process_subject_def Let_def)
qed

lemma process_subject_effects:
  assumes ex: "exists (subject_input_file bids_dir subject_id) w = Inr True"
      and mk: "mkdir_err (fs w) (path_str (subject_output_dir output_dir subject_id)) = None"
  shows "\<exists>post. trace (snd (process_subject t bids_dir subject_id output_dir fi w)) =
             trace w @
             [Log INFO (''Processing subject: sub-'' @ subject_id),
              Mkdir (path_str (subject_output_dir output_dir subject_id)),
              Log INFO (''Input file validated: ''
                          @ path_str (subject_input_file bids_dir subject_id)),
              Log INFO (''Running FSL BET on: ''
                          @ path_str (subject_input_file bids_dir subject_id)),
              Log INFO (''Fractional intensity threshold: '' @ float_repr fi),
              Log INFO (''Command: '' @ intercalate '' ''
                          (bet_cmd (subject_input_file bids_dir subject_id)
                                   (subject_output_file output_dir subject_id) fi)),
              Run (bet_cmd (subject_input_file bids_dir subject_id)
                           (subject_output_file output_dir subject_id) fi)] @ post"
    and "\<forall>cmd env f. present f \<subseteq> present (snd (t cmd env f)) \<Longrightarrow>
         path_str (subject_output_dir output_dir subject_id)
           \<in> present (fs (snd (process_subject t bids_dir subject_id output_dir fi w)))"
proof -
  let ?inp = "subject_input_file bids_dir subject_id"
  let ?dir = "subject_output_dir output_dir subject_id"
  let ?outf = "subject_output_file output_dir subject_id"
  let ?w3 = "prepared bids_dir subject_id output_dir w"
  let ?ps = "process_subject t bids_dir subject_id output_dir fi w"
  obtain rb w4 where rbe: "run_bet t ?inp ?outf fi ?w3 = (rb, w4)"
    by (cases "run_bet t ?inp ?outf fi ?w3")
  note ps = process_subject_unfold [OF ex mk, of t fi]
  have t3: "trace ?w3 = trace w @ [Log INFO (''Processing subject: sub-'' @ subject_id),
              Mkdir (path_str ?dir), Log INFO (''Input file validated: '' @ path_str ?inp)]"
    by (rule prepared_fs(2) [OF mk])
  from run_bet_world [of t ?inp ?outf fi ?w3] rbe obtain post4 where
    t4: "trace w4 = trace ?w3 @ [Log INFO (''Running FSL BET on: '' @ path_str ?inp),
                Log INFO (''Fractional intensity threshold: '' @ float_repr fi),
                Log INFO (''Command: '' @ intercalate '' '' (bet_cmd ?inp ?outf fi)),
                Run (bet_cmd ?inp ?outf fi)] @ post4"
    by auto
  have tail: "\<exists>post5. trace (snd ?ps) = trace w4 @ post5"
  proof (cases rb)
    case (Inl e)
    then show ?thesis using rbe by (simp add: ps)
  next
    case (Inr result_file)
    obtain sm w5 where sme: "save_metadata t ?dir ?inp result_file
            (JObj [(''fractional_intensity'', JFloat fi), (''subject_id'', JStr subject_id)]) w4
            = (sm, w5)"
      by (cases "save_metadata t ?dir ?inp result_file
            (JObj [(''fractional_intensity'', JFloat fi), (''subject_id'', JStr subject_id)]) w4")
    have "\<exists>post. trace w5 = trace w4 @ post"
      using save_metadata_trace [of w4 t "?dir" "?inp" result_file
              "JObj [(''fractional_intensity'', JFloat fi), (''subject_id'', JStr subject_id)]"]
            sme
      by (auto simp: prefix_def)
    then show ?thesis
      using Inr rbe sme by (cases sm) (auto simp: ps)
  qed
  then obtain post5 where t5: "trace (snd ?ps) = trace w4 @ post5" by blast
  show "\<exists>post. trace (snd ?ps) =
             trace w @
             [Log INFO (''Processing subject: sub-'' @ subject_id),
              Mkdir (path_str ?dir),
              Log INFO (''Input file validated: '' @ path_str ?inp),
              Log INFO (''Running FSL BET on: '' @ path_str ?inp),
              Log INFO (''Fractional intensity threshold: '' @ float_repr fi),
              Log INFO (''Command: '' @ intercalate '' '' (bet_cmd ?inp ?outf fi)),
              Run (bet_cmd ?inp ?outf fi)] @ post"
    by (rule exI [of _ "post4 @ post5"]) (simp add: t5 t4 t3)
  assume mono: "\<forall>cmd env f. present f \<subseteq> present (snd (t cmd env f))"
  have "extends ?w3 (snd (run_bet t ?inp ?outf fi ?w3))"
    using mono by (rule extends_run_bet)
  with rbe have e34: "extends ?w3 w4" by simp
  have fin: "extends w4 (snd ?ps)"
  proof (cases rb)
    case (Inl e)
    then show ?thesis using rbe by (simp add: ps)
  next
    case (Inr result_file)
    have "extends w4 (snd (save_metadata t ?dir ?inp result_file
            (JObj [(''fractional_intensity'', JFloat fi), (''subject_id'', JStr subject_id)]) w4))"
      using mono by (rule extends_save_metadata)
    then show ?thesis
      using Inr rbe by (auto simp: ps split: prod.splits sum.splits intro: extends_logger_after)
  qed
  from prepared_dir [OF mk] e34 fin
  show "path_str ?dir \<in> present (fs (snd ?ps))"
    by (auto simp: extends_def)
qed

lemma run_bet_fst_zero:
  assumes "t (bet_cmd i out fi) (bet_env w) (fs w) = (Completed 0 so se, f)"
  shows "fst (run_bet t i out fi w) =
     (case stat_err f (path_str (parse_path (output_base out @ ''.nii.gz''))) of
        Some e \<Rightarrow> Inl e
      | None \<Rightarrow>
          if path_str (parse_path (output_base out @ ''.nii.gz'')) \<in> present f
          then Inr (parse_path (output_base out @ ''.nii.gz''))
          else (case stat_err f (path_str (parse_path (output_base out @ ''.nii''))) of
                  Some e \<Rightarrow> Inl e
                | None \<Rightarrow>
                    if path_str (parse_path (output_base out @ ''.nii'')) \<in> present f
                    then Inr (parse_path (output_base out @ ''.nii''))
                    else Inl (FileNotFoundError (''BET output file not found: ''
                                                   @ output_base out))))"
  using assms
  by (simp add: run_bet_def Let_def subprocess_run_def exists_def split: option.splits)

lemma run_bet_keeps:
  "sys_version (snd (run_bet t i out fi w)) = sys_version w
   \<and> environ (snd (run_bet t i out fi w)) = environ w"
proof -
  let ?w3 = "logger INFO (''Command: '' @ intercalate '' '' (bet_cmd i out fi))
               (logger INFO (''Fractional intensity threshold: '' @ float_repr fi)
                 (logger INFO (''Running FSL BET on: '' @ path_str i) w))"
  obtain r w4 where sp: "subprocess_run t (bet_cmd i out fi) (bet_env w) ?w3 = (r, w4)"
    by (cases "subprocess_run t (bet_cmd i out fi) (bet_env w) ?w3")
  from subprocess_run_snd [of t "bet_cmd i out fi" "bet_env w" ?w3] sp
  have w4: "sys_version w4 = sys_version w \<and> environ w4 = environ w"
    by simp
  note rb = run_bet_unfold [OF sp]
  show ?thesis
  proof (cases r)
    case (Raised e)
    then show ?thesis using w4 by (simp add: rb)
  next
    case (Completed rc out' err)
    then show ?thesis using w4 by (simp add: rb Let_def split: sum.splits)
  qed
qed

lemma tool_ok_keeps:
  "wr_err (snd (tool_ok cmd env f)) = wr_err f \<and> stat_err (snd (tool_ok cmd env f)) = stat_err f"
  by (simp add: tool_ok_def split: list.splits)

lemma run_bet_fst_nonzero:
  assumes "t (bet_cmd i out fi) (bet_env w) (fs w) = (Completed rc so se, f)" and "rc \<noteq> 0"
  shows "run_bet t i out fi w =
           (Inl (RuntimeError (''Brain extraction failed: '' @ se)), snd (run_bet t i out fi w))"
  using assms by (simp add: run_bet_def Let_def subprocess_run_def)

section \<open>Properties of validate_input\<close>

text \<open>
  Claim C7, as stated, speaks of every path that does not exist.  The code decides that with
  \<open>Path.exists()\<close>, which raises when the probe itself fails.  Below a directory that cannot be
  searched the path does not exist, and \<open>validate_input\<close> leaves with the \<open>OSError\<close> of the
  probe, not with \<open>FileNotFoundError\<close>.
\<close>

theorem validate_input_missing_counterexample:
  "path_str (parse_path ''/locked/sub-02_T1w.nii.gz'') \<notin> present (fs world_locked) \<and>
   fst (validate_input (parse_path ''/locked/sub-02_T1w.nii.gz'') world_locked) =
     Inl (OSError ''[Errno 13] Permission denied'')"
proof -
  have p: "path_str (parse_path ''/locked/sub-02_T1w.nii.gz'') = ''/locked/sub-02_T1w.nii.gz''"
    by (simp add: parse_path_def path_str_def keep_part_def)
  have h1: "''/locked/sub-02_T1w.nii.gz'' \<notin> present (fs world_locked)"
    by (simp add: world_locked_def world0_def fs0_def)
  have h2: "exists (parse_path ''/locked/sub-02_T1w.nii.gz'') world_locked =
              Inl (OSError ''[Errno 13] Permission denied'')"
    unfolding exists_def p by (simp add: world_locked_def world0_def fs0_def)
  show ?thesis using h1 by (simp add: validate_input_def h2 p)
qed

text \<open>
  Claim C7, amended.  For a path that \<open>Path.exists()\<close> reports as absent, \<open>validate_input\<close>
  raises \<open>FileNotFoundError\<close>, and it does so before anything is logged: the world, and with
  it the trace of log records, is returned unchanged.
\<close>

theorem validate_input_missing:
  "exists p w = Inr False \<Longrightarrow>
   validate_input p w = (Inl (FileNotFoundError (''Input file not found: '' @ path_str p)), w)"
  by (simp add: validate_input_def)

theorem validate_input_missing_witness:
  "exists (parse_path ''/data/sub-02_T1w.nii.gz'') world0 = Inr False \<and>
   validate_input (parse_path ''/data/sub-02_T1w.nii.gz'') world0 =
     (Inl (FileNotFoundError (''Input file not found: ''
            @ path_str (parse_path ''/data/sub-02_T1w.nii.gz''))), world0)"
proof -
  have h: "exists (parse_path ''/data/sub-02_T1w.nii.gz'') world0 = Inr False"
    by (simp add: world0_def fs0_def exists_def)
  from h validate_input_missing [OF h] show ?thesis by (rule conjI)
qed

text \<open>
  Claim C2, as stated, quantifies over every path that lacks a recognised suffix.  The
  existence test comes first in the code, so a path that lacks the suffix and is reported
  absent raises \<open>FileNotFoundError\<close>, not \<open>ValueError\<close>.
\<close>

theorem validate_input_wrong_ext_counterexample:
  "\<not> py_endswith (path_str (parse_path ''/data/missing.txt'')) [''.nii'', ''.nii.gz''] \<and>
   fst (validate_input (parse_path ''/data/missing.txt'') world1) =
     Inl (FileNotFoundError ''Input file not found: /data/missing.txt'')"
proof -
  have p: "path_str (parse_path ''/data/missing.txt'') = ''/data/missing.txt''"
    by (simp add: parse_path_def path_str_def keep_part_def)
  have h1: "exists (parse_path ''/data/missing.txt'') world1 = Inr False"
    unfolding exists_def p by (simp add: world0_def world1_def fs0_def)
  have h2: "\<not> py_endswith ''/data/missing.txt'' [''.nii'', ''.nii.gz'']"
    by (simp add: py_endswith_def suffix_to_prefix)
  show ?thesis using h2 by (simp add: validate_input_def h1 p)
qed

text \<open>
  Claim C2, amended.  For a path that \<open>Path.exists()\<close> reports as present and whose text does
  not end in \<open>.nii\<close> or \<open>.nii.gz\<close>, \<open>validate_input\<close> raises \<open>ValueError\<close>; nothing is
  logged.  The code tests the text of the whole path; by \<open>endswith_name\<close> that is the same
  test as on the file name.
\<close>

theorem validate_input_wrong_ext:
  "exists p w = Inr True \<Longrightarrow> \<not> py_endswith (path_str p) [''.nii'', ''.nii.gz''] \<Longrightarrow>
   validate_input p w =
     (Inl (ValueError (''Input must be a NIfTI file (.nii or .nii.gz), got: '' @ path_str p)), w)"
  by (simp add: validate_input_def)

theorem validate_input_wrong_ext_witness:
  "exists (parse_path ''/data/notes.txt'') world1 = Inr True \<and>
   \<not> py_endswith (path_str (parse_path ''/data/notes.txt'')) [''.nii'', ''.nii.gz''] \<and>
   validate_input (parse_path ''/data/notes.txt'') world1 =
     (Inl (ValueError (''Input must be a NIfTI file (.nii or .nii.gz), got: ''
            @ path_str (parse_path ''/data/notes.txt''))), world1)"
proof -
  have h1: "exists (parse_path ''/data/notes.txt'') world1 = Inr True"
    by (simp add: world0_def world1_def fs0_def exists_def parse_path_def path_str_def
                  keep_part_def)
  have h2: "\<not> py_endswith (path_str (parse_path ''/data/notes.txt'')) [''.nii'', ''.nii.gz'']"
    by (simp add: parse_path_def path_str_def keep_part_def py_endswith_def suffix_to_prefix)
  from h1 h2 validate_input_wrong_ext [OF h1 h2] show ?thesis by blast
qed

section \<open>Properties of run_bet\<close>

text \<open>
  Claim C3.  The claim says that \<open>run_bet\<close> strips the image extension from the
  output path.  The code removes every occurrence of \<open>.nii.gz\<close> and then of \<open>.nii\<close>
  from the text of the path, wherever it stands.  With the output directory \<open>/out.nii\<close>
  the base handed to the tool is under \<open>/out\<close>, a different directory: the command
  evaluated below is what the code runs at that input.
\<close>

theorem output_base_inner_suffix:
  "output_base (parse_path ''/out.nii/sub-01/sub-01_T1w_brain.nii.gz'')
     = ''/out/sub-01/sub-01_T1w_brain''
   \<and> bet_cmd (parse_path ''/data/sub-01/anat/sub-01_T1w.nii.gz'')
              (parse_path ''/out.nii/sub-01/sub-01_T1w_brain.nii.gz'') (PyFloat ''0.5'')
     = [''bet'', ''/data/sub-01/anat/sub-01_T1w.nii.gz'', ''/out/sub-01/sub-01_T1w_brain'',
        ''-f'', ''0.5'', ''-R'']"
proof -
  have ob: "output_base (parse_path ''/out.nii/sub-01/sub-01_T1w_brain.nii.gz'')
              = ''/out/sub-01/sub-01_T1w_brain''"
    by (simp add: output_base_def parse_path_def path_str_def keep_part_def py_replace_def
                  py_scan.simps)
  have i: "path_str (parse_path ''/data/sub-01/anat/sub-01_T1w.nii.gz'')
             = ''/data/sub-01/anat/sub-01_T1w.nii.gz''"
    by (simp add: parse_path_def path_str_def keep_part_def)
  show ?thesis by (simp add: bet_cmd_def ob i)
qed






section \<open>Properties of save_metadata\<close>

text \<open>
  Claim C1.  Detecting the FSL version never raises: \<open>fsl_versions\<close> returns a map in
  every case.  The sentinel \<open>unknown\<close> is recorded only when probing or reading the
  version file raises.  When \<open>bet -V\<close> cannot be started and \<open>FSLDIR\<close> is not set, both lookups have
  failed and the map stays empty: no sentinel is recorded.
\<close>

theorem fsl_versions_no_sentinel:
  "environ world0 ''FSLDIR'' = None
   \<and> fst (tool_missing [''bet'', ''-V''] (environ world0) (fs world0))
       = Raised (FileNotFoundError ''No such file or directory: bet'')
   \<and> fst (fsl_versions tool_missing world0) = []"
  by (simp add: fsl_versions_def subprocess_run_def tool_missing_def world0_def)

text \<open>
  Claim C8.  Whenever \<open>save_metadata\<close> returns, the document stored at the metadata
  path has a \<open>timestamp\<close> that \<open>fromisoformat\<close> parses back to the clock reading, the
  texts of the input and output paths under \<open>input_file\<close> and \<open>output_file\<close>, and under
  \<open>software_versions\<close> a \<open>python\<close> entry holding the first word of \<open>sys.version\<close>.
\<close>

theorem save_metadata_document:
  assumes "fst (save_metadata t output_dir input_file output_file parameters w) = Inr mf"
      and "valid_datetime (now w)"
  shows "\<exists>fields ts sv v rest.
           mf = metadata_file output_dir
         \<and> docs (fs (snd (save_metadata t output_dir input_file output_file parameters w)))
                (path_str mf) = Some (JObj fields)
         \<and> map_of fields ''timestamp'' = Some (JStr ts)
         \<and> fromisoformat ts = Some (now w)
         \<and> map_of fields ''input_file'' = Some (JStr (path_str input_file))
         \<and> map_of fields ''output_file'' = Some (JStr (path_str output_file))
         \<and> map_of fields ''software_versions'' = Some (JObj sv)
         \<and> py_split (sys_version w) = v # rest
         \<and> map_of sv ''python'' = Some (JStr v)"
proof -
  obtain versions w1 where fv: "fsl_versions t w = (versions, w1)"
    by (cases "fsl_versions t w")
  then have w1: "w1 = w\<lparr>fs := snd (t [''bet'', ''-V''] (environ w) (fs w)),
                         trace := trace w @ [Run [''bet'', ''-V'']]\<rparr>"
    using fsl_versions_snd [of t w] by simp
  then have sv: "sys_version w1 = sys_version w" by simp
  from assms(1) fv obtain v rest where sp: "py_split (sys_version w) = v # rest"
    by (cases "py_split (sys_version w)") (auto simp: save_metadata_def sv)
  from assms(1) fv sp have ok: "wr_err (fs w1) (path_str (metadata_file output_dir)) = None"
    by (auto simp: save_metadata_def sv write_json_def split: option.splits)
  define sw where "sw = AList.update ''python'' (JStr v) versions"
  define fields where "fields =
     [(''timestamp'', JStr (isoformat (now w))),
      (''script_version'', JStr ''1.0.0''),
      (''author'', JStr ''Tara Neddersen''),
      (''lab'', JStr ''Knowles Lab, Stanford University Department of Neurology''),
      (''input_file'', JStr (path_str input_file)),
      (''output_file'', JStr (path_str output_file)),
      (''parameters'', parameters)] @ [(''software_versions'', JObj sw)]"
  from fv sp ok have res:
    "save_metadata t output_dir input_file output_file parameters w =
       (Inr (metadata_file output_dir),
        logger INFO (''Metadata saved to: '' @ path_str (metadata_file output_dir))
          (w1\<lparr>fs := (fs w1)\<lparr>present := insert (path_str (metadata_file output_dir))
                                              (present (fs w1)),
                              docs := (docs (fs w1))(path_str (metadata_file output_dir)
                                         \<mapsto> JObj fields)\<rparr>,
               trace := trace w1 @ [Write (path_str (metadata_file output_dir))]\<rparr>))"
    by (simp add: save_metadata_def sv write_json_def fields_def sw_def)
  from res assms(1) have mf: "mf = metadata_file output_dir" by simp
  have d: "docs (fs (snd (save_metadata t output_dir input_file output_file parameters w)))
             (path_str mf) = Some (JObj fields)"
    by (simp add: res mf)
  have ts: "fromisoformat (isoformat (now w)) = Some (now w)"
    using assms(2) by (rule fromisoformat_isoformat)
  have f1: "map_of fields ''timestamp'' = Some (JStr (isoformat (now w)))"
    and f2: "map_of fields ''input_file'' = Some (JStr (path_str input_file))"
    and f3: "map_of fields ''output_file'' = Some (JStr (path_str output_file))"
    and f4: "map_of fields ''software_versions'' = Some (JObj sw)"
    by (simp_all add: fields_def)
  have f5: "map_of sw ''python'' = Some (JStr v)"
    by (simp add: sw_def map_of_python)
  from mf d f1 ts f2 f3 f4 sp f5 show ?thesis by blast
qed

theorem save_metadata_document_witness:
  "fst (save_metadata tool_ok (parse_path ''/out/sub-01'')
          (parse_path ''/data/sub-01/anat/sub-01_T1w.nii.gz'')
          (parse_path ''/out/sub-01/sub-01_T1w_brain.nii.gz'')
          (JObj [(''fractional_intensity'', JFloat (PyFloat ''0.5'')), (''subject_id'', JStr ''01'')])
          world1) = Inr (metadata_file (parse_path ''/out/sub-01''))
   \<and> valid_datetime (now world1)
   \<and> (\<exists>fields ts sv v rest.
           metadata_file (parse_path ''/out/sub-01'') = metadata_file (parse_path ''/out/sub-01'')
         \<and> docs (fs (snd (save_metadata tool_ok (parse_path ''/out/sub-01'')
                  (parse_path ''/data/sub-01/anat/sub-01_T1w.nii.gz'')
                  (parse_path ''/out/sub-01/sub-01_T1w_brain.nii.gz'')
                  (JObj [(''fractional_intensity'', JFloat (PyFloat ''0.5'')),
                         (''subject_id'', JStr ''01'')])
                  world1)))
                (path_str (metadata_file (parse_path ''/out/sub-01''))) = Some (JObj fields)
         \<and> map_of fields ''timestamp'' = Some (JStr ts)
         \<and> fromisoformat ts = Some (now world1)
         \<and> map_of fields ''input_file'' =
             Some (JStr (path_str (parse_path ''/data/sub-01/anat/sub-01_T1w.nii.gz'')))
         \<and> map_of fields ''output_file'' =
             Some (JStr (path_str (parse_path ''/out/sub-01/sub-01_T1w_brain.nii.gz'')))
         \<and> map_of fields ''software_versions'' = Some (JObj sv)
         \<and> py_split (sys_version world1) = v # rest
         \<and> map_of sv ''python'' = Some (JStr v))"
proof -
  have sp: "py_split (sys_version world1) = [''3.11.4'', ''(main,'', ''Jun'', ''7'', ''2023)'']"
    by (simp add: world1_def world0_def py_split_def is_space_def)
  have wr: "wr_err (snd (tool_ok [''bet'', ''-V''] (environ world1) (fs world1)))
              (path_str (metadata_file (parse_path ''/out/sub-01''))) = None"
    by (simp add: tool_ok_def world1_def world0_def fs0_def)
  have h1: "fst (save_metadata tool_ok (parse_path ''/out/sub-01'')
          (parse_path ''/data/sub-01/anat/sub-01_T1w.nii.gz'')
          (parse_path ''/out/sub-01/sub-01_T1w_brain.nii.gz'')
          (JObj [(''fractional_intensity'', JFloat (PyFloat ''0.5'')), (''subject_id'', JStr ''01'')])
          world1) = Inr (metadata_file (parse_path ''/out/sub-01''))"
    using sp wr by (rule save_metadata_succeeds)
  have h2: "valid_datetime (now world1)"
    by (simp add: world1_def world0_def dt0_def valid_datetime_def days_in_month_def)
  from h1 h2 save_metadata_document [OF h1 h2] show ?thesis by blast
qed

section \<open>Properties of process_subject\<close>

text \<open>
  Claim C6.  The input is read at \<open><input_root>/sub-<id>/anat/sub-<id>_T1w.nii.gz\<close> and
  the metadata go to \<open><output_root>/sub-<id>/processing_metadata.json\<close> (see
  \<open>process_subject_layout\<close>).  The image does not always go to
  \<open><output_root>/sub-<id>/sub-<id>_T1w_brain.nii.gz\<close>: \<open>run_bet\<close> removes every \<open>.nii\<close>
  from the text of that path before it calls the tool.  With the output root \<open>/out.nii\<close>
  and a tool that writes where it is told, \<open>process_subject\<close> returns a file below
  \<open>/out\<close>, not below the output root.
\<close>

theorem process_subject_output_elsewhere:
  "path_str (joinpath (parse_path ''/out.nii'') (''sub-'' @ ''01'' @ ''/sub-'' @ ''01'' @ ''_T1w_brain.nii.gz''))
     = ''/out.nii/sub-01/sub-01_T1w_brain.nii.gz''
   \<and> fst (process_subject tool_ok (parse_path ''/data'') ''01'' (parse_path ''/out.nii'')
             (PyFloat ''0.5'') world1)
     = Inr (parse_path ''/out/sub-01/sub-01_T1w_brain.nii.gz'')
   \<and> path_str (parse_path ''/out/sub-01/sub-01_T1w_brain.nii.gz'')
     = ''/out/sub-01/sub-01_T1w_brain.nii.gz''"
proof -
  let ?b = "parse_path ''/data''"
  let ?o = "parse_path ''/out.nii''"
  let ?inp = "subject_input_file ?b ''01''"
  let ?dir = "subject_output_dir ?o ''01''"
  let ?outf = "subject_output_file ?o ''01''"
  let ?fi = "PyFloat ''0.5''"
  let ?w3 = "prepared ?b ''01'' ?o world1"
  let ?gz = "parse_path ''/out/sub-01/sub-01_T1w_brain.nii.gz''"
  have tmpl: "path_str (joinpath ?o (''sub-'' @ ''01'' @ ''/sub-'' @ ''01'' @ ''_T1w_brain.nii.gz''))
     = ''/out.nii/sub-01/sub-01_T1w_brain.nii.gz''"
    by (simp add: joinpath_def parse_path_def path_str_def keep_part_def)
  have inp: "path_str ?inp = ''/data/sub-01/anat/sub-01_T1w.nii.gz''"
    by (simp add: subject_input_file_def joinpath_def parse_path_def path_str_def keep_part_def)
  have dir: "path_str ?dir = ''/out.nii/sub-01''"
    by (simp add: subject_output_dir_def joinpath_def parse_path_def path_str_def keep_part_def)
  have outf: "path_str ?outf = ''/out.nii/sub-01/sub-01_T1w_brain.nii.gz''"
    by (simp add: subject_output_file_def subject_output_dir_def joinpath_def parse_path_def
                  path_str_def keep_part_def)
  have ob: "output_base ?outf = ''/out/sub-01/sub-01_T1w_brain''"
    unfolding output_base_def outf by (simp add: py_replace_def py_scan.simps)
  have gz: "path_str ?gz = ''/out/sub-01/sub-01_T1w_brain.nii.gz''"
    by (simp add: parse_path_def path_str_def keep_part_def)
  have w1: "stat_err (fs world1) = Map.empty" "wr_err (fs world1) = Map.empty"
    "mkdir_err (fs world1) = Map.empty"
    "present (fs world1) = {''/data/sub-01/anat/sub-01_T1w.nii.gz'', ''/data/notes.txt''}"
    "sys_version world1 = ''3.11.4 (main, Jun  7 2023)''"
    by (simp_all add: world1_def world0_def fs0_def)
  have ex: "exists ?inp world1 = Inr True"
    unfolding exists_def inp by (simp add: w1)
  have mk: "mkdir_err (fs world1) (path_str ?dir) = None"
    by (simp add: w1)
  note f3 = prepared_fs(1) [OF mk, of ?b]
  have s3: "stat_err (fs ?w3) = Map.empty" "wr_err (fs ?w3) = Map.empty"
    by (simp_all add: f3 w1)
  have tool: "tool_ok (bet_cmd ?inp ?outf ?fi) (bet_env ?w3) (fs ?w3)
      = (Completed 0 [] [],
         (fs ?w3)\<lparr>present := insert (''/out/sub-01/sub-01_T1w_brain'' @ ''.nii.gz'')
                                     (present (fs ?w3))\<rparr>)"
    by (simp add: tool_ok_def bet_cmd_def ob)
  have rbf: "fst (run_bet tool_ok ?inp ?outf ?fi ?w3) = Inr ?gz"
    using run_bet_fst_zero [of tool_ok ?inp ?outf ?fi ?w3, OF tool]
    by (simp add: ob gz s3)
  obtain w4 where rbe: "run_bet tool_ok ?inp ?outf ?fi ?w3 = (Inr ?gz, w4)"
    using rbf by (cases "run_bet tool_ok ?inp ?outf ?fi ?w3") simp
  from run_bet_keeps [of tool_ok ?inp ?outf ?fi ?w3] rbe
  have sv: "sys_version w4 = ''3.11.4 (main, Jun  7 2023)''"
    by (simp add: w1)
  have sp: "py_split (sys_version w4) = [''3.11.4'', ''(main,'', ''Jun'', ''7'', ''2023)'']"
    unfolding sv by (simp add: py_split_def is_space_def)
  from run_bet_world [of tool_ok ?inp ?outf ?fi ?w3] rbe
  have f4: "fs w4 = snd (tool_ok (bet_cmd ?inp ?outf ?fi) (bet_env ?w3) (fs ?w3))"
    by simp
  have wr: "wr_err (snd (tool_ok [''bet'', ''-V''] (environ w4) (fs w4)))
              (path_str (metadata_file ?dir)) = None"
    by (simp add: tool_ok_keeps f4 s3)
  have sm: "fst (save_metadata tool_ok ?dir ?inp ?gz
              (JObj [(''fractional_intensity'', JFloat ?fi), (''subject_id'', JStr ''01'')]) w4)
            = Inr (metadata_file ?dir)"
    using sp wr by (rule save_metadata_succeeds)
  obtain w5 where sme: "save_metadata tool_ok ?dir ?inp ?gz
              (JObj [(''fractional_intensity'', JFloat ?fi), (''subject_id'', JStr ''01'')]) w4
            = (Inr (metadata_file ?dir), w5)"
    using sm by (cases "save_metadata tool_ok ?dir ?inp ?gz
              (JObj [(''fractional_intensity'', JFloat ?fi), (''subject_id'', JStr ''01'')]) w4")
       simp
  have res: "fst (process_subject tool_ok ?b ''01'' ?o ?fi world1) = Inr ?gz"
    using rbe sme by (simp add: process_subject_unfold [OF ex mk])
  from tmpl res gz show ?thesis by blast
qed

text \<open>
  Claim C9.  The text of the input path built by \<open>process_subject\<close> ends in
  \<open>.nii.gz\<close>, so on that path \<open>validate_input\<close> succeeds, raises
  \<open>FileNotFoundError\<close> or passes on the error of the existence probe: its \<open>ValueError\<close>
  branch is never taken.
\<close>

theorem process_subject_input_valid_format:
  "suffix ''.nii.gz'' (path_str (subject_input_file bids_dir subject_id)) \<and>
   validate_input (subject_input_file bids_dir subject_id) w =
     (case exists (subject_input_file bids_dir subject_id) w of
        Inl e \<Rightarrow> (Inl e, w)
      | Inr found \<Rightarrow>
          if found
          then (Inr True, logger INFO (''Input file validated: ''
                  @ path_str (subject_input_file bids_dir subject_id)) w)
          else (Inl (FileNotFoundError (''Input file not found: ''
                  @ path_str (subject_input_file bids_dir subject_id))), w))"
  using subject_input_file_suffix [of bids_dir subject_id]
  by (simp add: validate_input_def py_endswith_def split: sum.splits)




end
